theory Spec2Isabelle
  imports Complex_Main "HOL-Library.Char_ord" "HOL-Library.List_Lexorder"
begin

section \<open>Corpus stoplists: an embedding of \<^verbatim>\<open>cltk/stop/stop.py\<close>\<close>

text \<open>
  The class \<^verbatim>\<open>CorpusStoplist\<close> builds a list of stopwords from a list of documents.
  Conventions of the embedding:
  \<^item> a Python \<^verbatim>\<open>str\<close> is a \<open>string\<close>, one \<open>char\<close> per code point below 256 (the
    punctuation table of the source needs U+00AB and U+00BB); the order of \<open>string\<close> is
    the lexicographic order on character codes, which is how Python compares strings;
  \<^item> a numpy matrix is the list of its rows; an integer matrix holds \<open>int\<close>, a float
    matrix holds \<open>real\<close>: float64 arithmetic is idealised as exact real arithmetic, and
    a division by zero, where numpy gives \<^verbatim>\<open>nan\<close> or \<^verbatim>\<open>inf\<close> and a warning but raises
    nothing, gives HOL's \<open>x / 0 = 0\<close>; the entropy, whose value depends on the rounding,
    is modelled a second time in float64;
  \<^item> an exception is a value \<open>Inl e\<close> of the result type;
  \<^item> scikit-learn's two vectorizers, \<^verbatim>\<open>str.lower\<close> and the iteration order of a Python
    set are not code of this module: they are fields of the object record.
\<close>

subsection \<open>Errors, results and the object\<close>

datatype py_error =
    AttributeError string  \<comment> \<open>the attribute that is missing\<close>
  | ValueError string      \<comment> \<open>the message\<close>
  | ImportError

text \<open>What \<^verbatim>\<open>build_stoplist\<close> hands back: a Python list, or a Python set.\<close>

datatype stops = StopList "string list" | StopSet "string set"

fun stops_terms :: "stops \<Rightarrow> string set" where
  "stops_terms (StopList xs) = set xs"
| "stops_terms (StopSet S) = S"

fun stops_len :: "stops \<Rightarrow> nat" where
  "stops_len (StopList xs) = length xs"
| "stops_len (StopSet S) = card S"

fun is_StopList :: "stops \<Rightarrow> bool" where
  "is_StopList (StopList xs) = True"
| "is_StopList (StopSet S) = False"

text \<open>
  \<open>language\<close> is \<open>None\<close> when the attribute \<^verbatim>\<open>self.language\<close> was never assigned.
  \<open>vectorizer\<close> and \<open>tfidf_vectorizer\<close> stand for \<^verbatim>\<open>fit_transform\<close> followed by
  \<^verbatim>\<open>toarray\<close> and \<^verbatim>\<open>get_feature_names\<close>: they raise, or give a matrix and a vocabulary.
\<close>

record corpus_stoplist =
  language :: "string option"
  vectorizer :: "string list \<Rightarrow> py_error + (int list list \<times> string list)"
  tfidf_vectorizer :: "string list \<Rightarrow> py_error + (real list list \<times> string list)"
  str_lower :: "string \<Rightarrow> string"
  set_iter :: "string set \<Rightarrow> string list"

text \<open>
  \<^verbatim>\<open>Stoplist.__init__\<close> assigns \<^verbatim>\<open>self.language\<close> only under \<^verbatim>\<open>if language:\<close>, so
  neither \<^verbatim>\<open>None\<close> nor the empty string sets it.
\<close>

definition init_language :: "(string \<Rightarrow> string) \<Rightarrow> string option \<Rightarrow> string option" where
  "init_language lower_fn lang =
     (case lang of
        None \<Rightarrow> None
      | Some l \<Rightarrow> if l = [] then None else Some (lower_fn l))"

text \<open>
  \<^verbatim>\<open>CorpusStoplist.__init__\<close>: after the base initialisation it raises \<^verbatim>\<open>ImportError\<close>
  unless both numpy and scikit-learn could be imported.
\<close>

definition CorpusStoplist_init ::
  "bool \<Rightarrow> bool \<Rightarrow> corpus_stoplist \<Rightarrow> string option \<Rightarrow> py_error + corpus_stoplist" where
  "CorpusStoplist_init numpy_installed sklearn_installed runtime lang =
     (if \<not> numpy_installed \<or> \<not> sklearn_installed then Inl ImportError
      else Inr (runtime\<lparr>language := init_language (str_lower runtime) lang\<rparr>))"

subsection \<open>Preprocessing\<close>

definition punctuation :: string where
  "punctuation =
     [CHR 0x22] @ ''#$%&'' @ [CHR 0x27] @ ''()*+,-/:;<=>@['' @ [CHR 0x5C] @ '']^_''
       @ [CHR 0x60] @ ''{|}~.?!'' @ [CHR 0xAB, CHR 0xBB]"

definition digits :: string where
  "digits = ''0123456789''"

text \<open>\<^verbatim>\<open>text.translate(str.maketrans({key: " " for key in keys}))\<close>\<close>

definition translate_to_space :: "string \<Rightarrow> string \<Rightarrow> string" where
  "translate_to_space keys text = map (\<lambda>c. if c \<in> set keys then CHR '' '' else c) text"

text \<open>\<^verbatim>\<open>str.isspace\<close> on the code points below 256.\<close>

definition py_isspace :: "char \<Rightarrow> bool" where
  "py_isspace c \<longleftrightarrow>
     c \<in> set [CHR 0x09, CHR 0x0A, CHR 0x0B, CHR 0x0C, CHR 0x0D, CHR 0x1C, CHR 0x1D,
              CHR 0x1E, CHR 0x1F, CHR 0x20, CHR 0x85, CHR 0xA0]"

text \<open>
  \<^verbatim>\<open>str.split()\<close> without argument: the maximal runs of non-whitespace characters.
  The first argument is the run read so far.
\<close>

fun split_from :: "string \<Rightarrow> string \<Rightarrow> string list" where
  "split_from cur [] = (if cur = [] then [] else [cur])"
| "split_from cur (c # cs) =
     (if py_isspace c
      then (if cur = [] then split_from [] cs else cur # split_from [] cs)
      else split_from (cur @ [c]) cs)"

definition py_split :: "string \<Rightarrow> string list" where
  "py_split text = split_from [] text"

text \<open>Lines 250 to 260 of \<^verbatim>\<open>build_stoplist\<close>.\<close>

definition preprocess :: "corpus_stoplist \<Rightarrow> bool \<Rightarrow> bool \<Rightarrow> bool \<Rightarrow> string list \<Rightarrow> string list" where
  "preprocess self lower remove_punctuation remove_numbers texts =
     (let texts1 = (if lower then map (str_lower self) texts else texts);
          texts2 = (if remove_punctuation then map (translate_to_space punctuation) texts1
                    else texts1);
          texts3 = (if remove_numbers then map (translate_to_space digits) texts2 else texts2)
      in texts3)"

subsection \<open>The probability model\<close>

definition get_raw_lengths :: "string list \<Rightarrow> int list" where
  "get_raw_lengths texts = map (\<lambda>tokens. int (length (py_split tokens))) texts"

text \<open>The column vector of shape (N, 1) is the list of its N entries.\<close>

definition get_length_array :: "int list \<Rightarrow> int list" where
  "get_length_array raw_lengths = raw_lengths"

text \<open>\<^verbatim>\<open>dtm / length_array\<close>: every row is divided by the length of its document.\<close>

definition get_probabilities :: "int list list \<Rightarrow> int list \<Rightarrow> real list list" where
  "get_probabilities dtm length_array =
     map2 (\<lambda>row len. map (\<lambda>c. real_of_int c / real_of_int len) row) dtm length_array"

text \<open>\<^verbatim>\<open>bP = dtm / sum(raw_lengths)\<close>\<close>

definition background_probabilities :: "int list list \<Rightarrow> int list \<Rightarrow> real list list" where
  "background_probabilities dtm raw_lengths =
     map (map (\<lambda>c. real_of_int c / real_of_int (sum_list raw_lengths))) dtm"

text \<open>
  \<^verbatim>\<open>m.sum(axis=0)\<close>, the sums of the columns. The number of columns is read off the first
  row; for a matrix without rows the model gives the empty vector.
\<close>

definition ncols :: "'a list list \<Rightarrow> nat" where
  "ncols m = (case m of [] \<Rightarrow> 0 | row # _ \<Rightarrow> length row)"

definition sum_axis0 :: "('a::comm_monoid_add) list list \<Rightarrow> 'a list" where
  "sum_axis0 m = map (\<lambda>j. \<Sum>row\<leftarrow>m. row ! j) [0..<ncols m]"

definition get_mean_probabilities :: "real list list \<Rightarrow> nat \<Rightarrow> real list" where
  "get_mean_probabilities P N =
     (let probability_sum = sum_axis0 P in map (\<lambda>s. s / real N) probability_sum)"

definition get_variance_probabilities :: "real list list \<Rightarrow> real list list \<Rightarrow> nat \<Rightarrow> real list" where
  "get_variance_probabilities bP P N =
     (let variance = map2 (map2 (\<lambda>p b. (p - b) ^ 2)) P bP;
          variance_sum = sum_axis0 variance
      in map (\<lambda>s. s / real N) variance_sum)"

definition get_entropies :: "real list list \<Rightarrow> real list" where
  "get_entropies P =
     (let logprobs = map (map (\<lambda>p. if p \<noteq> 0 then log 10 (1 / p) else 0)) P;
          ent = map2 (map2 (\<lambda>p l. p * l)) P logprobs
      in sum_axis0 ent)"

subsection \<open>The entropy in float64\<close>

text \<open>
  The exact model above cannot see the rounding of the entropy scores. Here the same
  computation is written over float64: every operation rounds its exact result to the
  nearest float64, ties to even, and numpy adds the rows of a matrix one after the other.
  Overflow and subnormal numbers are left out, and \<^verbatim>\<open>np.log10\<close> is taken to round
  correctly.
\<close>













subsection \<open>Ranking\<close>

text \<open>
  \<^verbatim>\<open>sorted(xs, key=key, reverse=True)\<close>: Python's sort is stable also when reversed, so
  elements with equal keys keep their order. That is a stable ascending sort on the negated key.
\<close>

definition py_sorted_rev :: "('a \<Rightarrow> 'k::linordered_ab_group_add) \<Rightarrow> 'a list \<Rightarrow> 'a list" where
  "py_sorted_rev key xs = sort_key (\<lambda>x. - key x) xs"

definition combine_vocabulary :: "string list \<Rightarrow> ('k::linordered_ab_group_add) list \<Rightarrow> string list" where
  "combine_vocabulary vocab meas =
     (let temp = zip vocab meas;
          temp1 = py_sorted_rev snd temp
      in map fst temp1)"

text \<open>The slice \<^verbatim>\<open>xs[:size]\<close>; a negative bound counts from the end.\<close>

definition py_slice_to :: "int \<Rightarrow> 'a list \<Rightarrow> 'a list" where
  "py_slice_to sz xs =
     (if 0 \<le> sz then take (nat sz) xs else take (nat (int (length xs) + sz)) xs)"

subsection \<open>Borda count\<close>

text \<open>
  \<^verbatim>\<open>scores\<close> is a dictionary; Python dictionaries keep their keys in insertion order, so it is
  an association list with distinct keys, new keys at the end.
\<close>

definition dict_keys :: "('a \<times> 'v) list \<Rightarrow> 'a list" where
  "dict_keys d = map fst d"

definition dict_get :: "('a \<times> nat) list \<Rightarrow> 'a \<Rightarrow> nat" where
  "dict_get d k = (case map_of d k of None \<Rightarrow> 0 | Some v \<Rightarrow> v)"

text \<open>The body of the inner loop, for one pair of \<^verbatim>\<open>enumerate(reversed(l))\<close>.\<close>

definition borda_step :: "('a \<times> nat) list \<Rightarrow> nat \<times> 'a \<Rightarrow> ('a \<times> nat) list" where
  "borda_step scores p =
     (let idx = fst p; elem = snd p;
          scores1 = (if elem \<notin> set (dict_keys scores) then scores @ [(elem, 0)] else scores)
      in map (\<lambda>(k, v). if k = elem then (k, v + idx) else (k, v)) scores1)"

definition borda_scores :: "'a list list \<Rightarrow> ('a \<times> nat) list" where
  "borda_scores lsts =
     foldl (\<lambda>scores l. foldl borda_step scores (enumerate 0 (rev l))) [] lsts"

definition borda_sort :: "'a list list \<Rightarrow> 'a list" where
  "borda_sort lsts =
     (let scores = borda_scores lsts
      in py_sorted_rev (\<lambda>elem. int (dict_get scores elem)) (dict_keys scores))"

text \<open>
  The same fusion in the words of the specification: a term at rank \<open>i\<close> of a list \<open>l\<close>
  earns \<open>length l - 1 - i\<close>, the scores are added up over all lists, and the terms are
  taken in the order in which the traversal meets them first.
\<close>

definition positional_score :: "'a list \<Rightarrow> 'a \<Rightarrow> nat" where
  "positional_score l e = (\<Sum>i\<leftarrow>[0..<length l]. if l ! i = e then length l - 1 - i else 0)"

definition combined_score :: "'a list list \<Rightarrow> 'a \<Rightarrow> nat" where
  "combined_score lsts e = (\<Sum>l\<leftarrow>lsts. positional_score l e)"

definition first_seen :: "'a list \<Rightarrow> 'a list" where
  "first_seen xs = rev (remdups (rev xs))"

subsection \<open>\<^verbatim>\<open>build_stoplist\<close>\<close>

definition unsupported_basis :: "string \<Rightarrow> py_error" where
  "unsupported_basis basis =
     ValueError (''Basis '' @ [CHR 0x27] @ basis @ [CHR 0x27] @ '' not supported.'')"

definition supported_bases :: "string list" where
  "supported_bases = [''frequency'', ''tfidf'', ''mean'', ''variance'', ''entropy'', ''zou'']"

text \<open>The chain of \<^verbatim>\<open>if\<close>/\<^verbatim>\<open>elif\<close> on the basis, lines 275 to 313.\<close>

definition select_stops ::
  "string \<Rightarrow> int \<Rightarrow> int list list \<Rightarrow> real list list \<Rightarrow> string list \<Rightarrow> int list \<Rightarrow> nat
     \<Rightarrow> py_error + stops" where
  "select_stops basis sz dtm tfidf vocab raw_lengths N =
     (let P = get_probabilities dtm (get_length_array raw_lengths) in
      if basis = ''frequency'' then
        (let freq = sum_axis0 dtm;
             freq_list = py_slice_to sz (combine_vocabulary vocab freq)
         in Inr (StopList freq_list))
      else if basis = ''tfidf'' then
        (let tfidf1 = sum_axis0 tfidf;
             tfidf_list = py_slice_to sz (combine_vocabulary vocab tfidf1)
         in Inr (StopList tfidf_list))
      else if basis = ''mean'' then
        (let MP = get_mean_probabilities P N;
             mp_list = py_slice_to sz (combine_vocabulary vocab MP)
         in Inr (StopList mp_list))
      else if basis = ''variance'' then
        (let bP = background_probabilities dtm raw_lengths;
             VP = get_variance_probabilities bP P N;
             vp_list = py_slice_to sz (combine_vocabulary vocab VP)
         in Inr (StopList vp_list))
      else if basis = ''entropy'' then
        (let ent = get_entropies P;
             ent_list = py_slice_to sz (combine_vocabulary vocab ent)
         in Inr (StopSet (set ent_list)))
      else if basis = ''zou'' then
        (let MP = get_mean_probabilities P N;
             mp_list = combine_vocabulary vocab MP;
             bP = background_probabilities dtm raw_lengths;
             VP = get_variance_probabilities bP P N;
             vp_list = combine_vocabulary vocab VP;
             ent = get_entropies P;
             ent_list = combine_vocabulary vocab ent;
             lsts = [mp_list, vp_list, ent_list]
         in Inr (StopList (py_slice_to sz (borda_sort lsts))))
      else Inl (unsupported_basis basis))"

text \<open>Iterating over the result so far: a list in its order, a set in the order of its hashes.\<close>

fun iterate :: "corpus_stoplist \<Rightarrow> stops \<Rightarrow> string list" where
  "iterate self (StopList xs) = xs"
| "iterate self (StopSet S) = set_iter self S"

text \<open>
  \<^verbatim>\<open>stops.extend(item for item in include if item not in stops)\<close>: the generator is consumed
  while the list grows, so the membership test sees the items appended before. A set has no
  \<^verbatim>\<open>extend\<close>.
\<close>

definition extend_new :: "string list \<Rightarrow> string list \<Rightarrow> string list" where
  "extend_new xs include =
     foldl (\<lambda>acc item. if item \<notin> set acc then acc @ [item] else acc) xs include"

fun apply_include :: "stops \<Rightarrow> string list \<Rightarrow> py_error + stops" where
  "apply_include (StopList xs) include = Inr (StopList (extend_new xs include))"
| "apply_include (StopSet S) include = Inl (AttributeError ''extend'')"

text \<open>Lines 315 to 324: exclusion, inclusion, sorting.\<close>

definition assemble ::
  "corpus_stoplist \<Rightarrow> bool \<Rightarrow> string list \<Rightarrow> string list \<Rightarrow> stops \<Rightarrow> py_error + stops" where
  "assemble self sort_words include exclude stops0 =
     (let stops1 = (if exclude \<noteq> []
                    then StopList (filter (\<lambda>item. item \<notin> set exclude) (iterate self stops0))
                    else stops0)
      in case (if include \<noteq> [] then apply_include stops1 include else Inr stops1) of
           Inl e \<Rightarrow> Inl e
         | Inr stops2 \<Rightarrow>
             if sort_words then Inr (StopList (sort (iterate self stops2))) else Inr stops2)"

text \<open>
  The method itself. The first access to \<^verbatim>\<open>self.language\<close> raises when the attribute was
  never assigned. \<^verbatim>\<open>inc_counts\<close> is a parameter of the method that its body never reads.
\<close>

definition build_stoplist ::
  "corpus_stoplist \<Rightarrow> string list \<Rightarrow> string \<Rightarrow> int \<Rightarrow> bool \<Rightarrow> bool \<Rightarrow> bool \<Rightarrow> bool \<Rightarrow> bool
     \<Rightarrow> string list \<Rightarrow> string list \<Rightarrow> py_error + stops" where
  "build_stoplist self texts basis sz sort_words inc_counts lower remove_punctuation
       remove_numbers include exclude =
     (case language self of
        None \<Rightarrow> Inl (AttributeError ''language'')
      | Some lang \<Rightarrow>
          (let texts1 = preprocess self lower remove_punctuation remove_numbers texts in
           case vectorizer self texts1 of
             Inl e \<Rightarrow> Inl e
           | Inr (dtm, vocab) \<Rightarrow>
               (case tfidf_vectorizer self texts1 of
                  Inl e \<Rightarrow> Inl e
                | Inr (tfidf, vocab') \<Rightarrow>
                    (let N = length texts1;
                         raw_lengths = get_raw_lengths texts1
                     in case select_stops basis sz dtm tfidf vocab raw_lengths N of
                          Inl e \<Rightarrow> Inl e
                        | Inr stops0 \<Rightarrow> assemble self sort_words include exclude stops0))))"

subsection \<open>Objects for concrete runs\<close>

text \<open>Lower case for the ASCII letters, as \<^verbatim>\<open>str.lower\<close> acts on ASCII text.\<close>

definition ascii_lower :: "string \<Rightarrow> string" where
  "ascii_lower s =
     map (\<lambda>c. if CHR ''A'' \<le> c \<and> c \<le> CHR ''Z'' then char_of (of_char c + (32::nat)) else c) s"

text \<open>
  An object with the language set, whose vectorizers answer with a given document-term
  matrix, tf-idf matrix and vocabulary, and whose sets iterate in sorted order.
\<close>

definition stub_stoplist :: "int list list \<Rightarrow> real list list \<Rightarrow> string list \<Rightarrow> corpus_stoplist" where
  "stub_stoplist dtm tfidf vocab =
     \<lparr>language = Some ''latin'',
      vectorizer = (\<lambda>texts. Inr (dtm, vocab)),
      tfidf_vectorizer = (\<lambda>texts. Inr (tfidf, vocab)),
      str_lower = ascii_lower,
      set_iter = sorted_list_of_set\<rparr>"

text \<open>
  An object whose count vectorizer raises, as scikit-learn's does on a corpus without any
  token.
\<close>

definition empty_vocabulary :: py_error where
  "empty_vocabulary = ValueError ''empty vocabulary; perhaps the documents only contain stop words''"

definition failing_stoplist :: corpus_stoplist where
  "failing_stoplist =
     \<lparr>language = Some ''latin'',
      vectorizer = (\<lambda>texts. Inl empty_vocabulary),
      tfidf_vectorizer = (\<lambda>texts. Inl empty_vocabulary),
      str_lower = ascii_lower,
      set_iter = sorted_list_of_set\<rparr>"

subsection \<open>Notions used in the statements\<close>

text \<open>
  What is known of the iteration order of a Python set: every element comes once.
\<close>

definition set_iter_ok :: "corpus_stoplist \<Rightarrow> bool" where
  "set_iter_ok self \<longleftrightarrow>
     (\<forall>S. finite S \<longrightarrow> set (set_iter self S) = S \<and> distinct (set_iter self S))"

text \<open>The score that a measure vector gives to a term of the vocabulary.\<close>

definition score_of :: "string list \<Rightarrow> ('k::zero) list \<Rightarrow> string \<Rightarrow> 'k" where
  "score_of vocab meas t = (case map_of (zip vocab meas) t of None \<Rightarrow> 0 | Some v \<Rightarrow> v)"

section \<open>Sorting and slicing\<close>

lemma py_sorted_rev_descending:
  "sorted_wrt (\<lambda>a b. key a \<ge> key b) (py_sorted_rev key xs)"
  using sorted_sort_key [of "\<lambda>x. - key x" xs]
  by (simp add: py_sorted_rev_def sorted_map)

lemma py_sorted_rev_stable:
  "filter (\<lambda>x. key x = v) (py_sorted_rev key xs) = filter (\<lambda>x. key x = v) xs"
  using sort_key_stable [of "\<lambda>x. - key x" "- v" xs]
  by (simp add: py_sorted_rev_def)

lemma set_py_sorted_rev: "set (py_sorted_rev key xs) = set xs"
  by (simp add: py_sorted_rev_def)

lemma length_py_sorted_rev: "length (py_sorted_rev key xs) = length xs"
  by (simp add: py_sorted_rev_def)

lemma distinct_py_sorted_rev: "distinct (py_sorted_rev key xs) = distinct xs"
  by (simp add: py_sorted_rev_def)

lemma set_py_slice_to: "set (py_slice_to sz xs) \<subseteq> set xs"
  by (auto simp: py_slice_to_def dest: in_set_takeD)

lemma length_py_slice_to: "0 \<le> sz \<Longrightarrow> length (py_slice_to sz xs) \<le> nat sz"
  by (simp add: py_slice_to_def)

section \<open>The Borda count\<close>

lemma first_seen_snoc:
  "first_seen (xs @ [x]) = (if x \<in> set xs then first_seen xs else first_seen xs @ [x])"
  by (simp add: first_seen_def)

lemma set_first_seen: "set (first_seen xs) = set xs"
  by (simp add: first_seen_def)

lemma distinct_first_seen: "distinct (first_seen xs)"
  by (simp add: first_seen_def)

lemma dict_keys_borda_step:
  "dict_keys (borda_step s (i, e)) =
     (if e \<in> set (dict_keys s) then dict_keys s else dict_keys s @ [e])"
  by (auto simp: borda_step_def dict_keys_def Let_def case_prod_unfold intro: map_idI)

lemma map_of_bump:
  "map_of (map (\<lambda>(k, v). if k = e then (k, v + i) else (k, v)) s) k =
     map_option (\<lambda>v. if k = e then v + i else v) (map_of s k)"
  by (induction s) auto

lemma dict_get_borda_step:
  "dict_get (borda_step s (i, e)) k = dict_get s k + (if k = e then i else 0)"
proof (cases "e \<in> set (dict_keys s)")
  case True
  then have "map_of s e \<noteq> None"
    by (simp add: dict_keys_def map_of_eq_None_iff)
  with True show ?thesis
    by (auto simp: borda_step_def dict_get_def Let_def map_of_bump split: option.splits)
next
  case False
  then have "map_of s e = None"
    by (simp add: dict_keys_def map_of_eq_None_iff)
  with False show ?thesis
    by (auto simp: borda_step_def dict_get_def Let_def map_of_bump split: option.splits)
qed

text \<open>The inner loop: the keys grow in the order of first encounter, the values by the indices.\<close>

lemma dict_keys_inner:
  "dict_keys s = first_seen xs \<Longrightarrow>
   dict_keys (foldl borda_step s ps) = first_seen (xs @ map snd ps)"
proof (induction ps arbitrary: s xs)
  case Nil
  then show ?case by simp
next
  case (Cons p ps)
  obtain i e where p: "p = (i, e)" by (cases p)
  have "dict_keys (borda_step s p) = first_seen (xs @ [e])"
    using Cons.prems by (simp add: p dict_keys_borda_step first_seen_snoc set_first_seen)
  from Cons.IH [OF this] show ?case by (simp add: p)
qed

lemma dict_get_inner:
  "dict_get (foldl borda_step s ps) k =
     dict_get s k + (\<Sum>p\<leftarrow>ps. if snd p = k then fst p else 0)"
proof (induction ps arbitrary: s)
  case Nil
  then show ?case by simp
next
  case (Cons p ps)
  obtain i e where p: "p = (i, e)" by (cases p)
  show ?case by (auto simp: Cons.IH p dict_get_borda_step)
qed

text \<open>Counting from the end of \<open>l\<close> is counting \<open>length l - 1 - rank\<close> from its start.\<close>

lemma enumerate_rev_sum:
  "(\<Sum>p\<leftarrow>enumerate 0 (rev l). if snd p = k then fst p else 0) = positional_score l k"
proof -
  let ?n = "length l"
  have "map (\<lambda>i. rev l ! i) [0..<?n] = rev l"
    using map_nth [of "rev l"] by simp
  then have "enumerate 0 (rev l) = map (\<lambda>i. (i, rev l ! i)) [0..<?n]"
    by (simp add: enumerate_eq_zip zip_eq_conv comp_def)
  then have "(\<Sum>p\<leftarrow>enumerate 0 (rev l). if snd p = k then fst p else 0)
      = (\<Sum>i\<leftarrow>[0..<?n]. if rev l ! i = k then i else 0)"
    by (simp add: comp_def cong: if_cong)
  also have "\<dots> = (\<Sum>i<?n. if rev l ! i = k then i else 0)"
    by (simp add: interv_sum_list_conv_sum_set_nat atLeast0LessThan)
  also have "\<dots> = (\<Sum>i<?n. if l ! (?n - Suc i) = k then i else 0)"
    by (rule sum.cong) (auto simp: rev_nth)
  also have "\<dots> = (\<Sum>i<?n. if l ! (?n - Suc i) = k then ?n - 1 - (?n - Suc i) else 0)"
    by (rule sum.cong) auto
  also have "\<dots> = (\<Sum>i<?n. if l ! i = k then ?n - 1 - i else 0)"
    by (rule sum.nat_diff_reindex [of "\<lambda>i. if l ! i = k then ?n - 1 - i else 0" ?n])
  also have "\<dots> = positional_score l k"
    by (simp add: positional_score_def interv_sum_list_conv_sum_set_nat atLeast0LessThan)
  finally show ?thesis .
qed

lemma dict_keys_outer:
  "dict_keys s = first_seen xs \<Longrightarrow>
   dict_keys (foldl (\<lambda>scores l. foldl borda_step scores (enumerate 0 (rev l))) s lsts)
     = first_seen (xs @ concat (map rev lsts))"
proof (induction lsts arbitrary: s xs)
  case Nil
  then show ?case by simp
next
  case (Cons l lsts)
  have "dict_keys (foldl borda_step s (enumerate 0 (rev l))) = first_seen (xs @ rev l)"
    using dict_keys_inner [OF Cons.prems, of "enumerate 0 (rev l)"] by simp
  from Cons.IH [OF this] show ?case by simp
qed

lemma dict_get_outer:
  "dict_get (foldl (\<lambda>scores l. foldl borda_step scores (enumerate 0 (rev l))) s lsts) k
     = dict_get s k + combined_score lsts k"
  by (induction lsts arbitrary: s)
     (simp_all add: combined_score_def dict_get_inner enumerate_rev_sum)

lemma dict_keys_borda_scores:
  "dict_keys (borda_scores lsts) = first_seen (concat (map rev lsts))"
  using dict_keys_outer [of "[]" "[]" lsts]
  by (simp add: borda_scores_def dict_keys_def first_seen_def)

lemma dict_get_borda_scores: "dict_get (borda_scores lsts) k = combined_score lsts k"
  using dict_get_outer [of "[]" lsts k] by (simp add: borda_scores_def dict_get_def)

lemma borda_sort_eq:
  "borda_sort lsts =
     py_sorted_rev (\<lambda>e. int (combined_score lsts e)) (first_seen (concat (map rev lsts)))"
  by (simp add: borda_sort_def Let_def dict_keys_borda_scores dict_get_borda_scores)

lemma set_borda_sort: "set (borda_sort lsts) = \<Union> (set ` set lsts)"
  by (simp add: borda_sort_eq set_py_sorted_rev set_first_seen)

lemma distinct_borda_sort: "distinct (borda_sort lsts)"
  by (simp add: borda_sort_eq distinct_py_sorted_rev distinct_first_seen)

lemma select_stops_zou:
  "select_stops ''zou'' sz dtm tfidf vocab raw_lengths N =
     (let P = get_probabilities dtm (get_length_array raw_lengths);
          bP = background_probabilities dtm raw_lengths
      in Inr (StopList (py_slice_to sz (borda_sort
           [combine_vocabulary vocab (get_mean_probabilities P N),
            combine_vocabulary vocab (get_variance_probabilities bP P N),
            combine_vocabulary vocab (get_entropies P)]))))"
  by (simp add: select_stops_def Let_def)

text \<open>
  Claim C1. For the basis \<^verbatim>\<open>zou\<close> the result is a slice of the Borda fusion of the mean,
  variance and entropy rankings. The fusion of any lists gives every term, in every list,
  the score \<open>length l - 1 - rank\<close>, adds these scores up per term over all lists, and
  returns all the terms in descending order of the sum; terms with the same sum stay in the
  order in which the traversal (each list from its end) met them first.
\<close>

theorem borda_sort_positional_scores:
  "select_stops ''zou'' sz dtm tfidf vocab raw_lengths N =
     (let P = get_probabilities dtm (get_length_array raw_lengths);
          bP = background_probabilities dtm raw_lengths
      in Inr (StopList (py_slice_to sz (borda_sort
           [combine_vocabulary vocab (get_mean_probabilities P N),
            combine_vocabulary vocab (get_variance_probabilities bP P N),
            combine_vocabulary vocab (get_entropies P)]))))
   \<and> dict_get (borda_scores lsts) e = combined_score lsts e
   \<and> combined_score lsts e =
       (\<Sum>l\<leftarrow>lsts. \<Sum>i\<leftarrow>[0..<length l]. if l ! i = e then length l - 1 - i else 0)
   \<and> borda_sort lsts =
       py_sorted_rev (\<lambda>e. int (combined_score lsts e)) (first_seen (concat (map rev lsts)))
   \<and> set (borda_sort lsts) = \<Union> (set ` set lsts)
   \<and> distinct (borda_sort lsts)
   \<and> sorted_wrt (\<lambda>a b. combined_score lsts a \<ge> combined_score lsts b) (borda_sort lsts)
   \<and> filter (\<lambda>x. combined_score lsts x = v) (borda_sort lsts)
       = filter (\<lambda>x. combined_score lsts x = v) (first_seen (concat (map rev lsts)))"
proof -
  have sorted: "sorted_wrt (\<lambda>a b. combined_score lsts a \<ge> combined_score lsts b) (borda_sort lsts)"
    using py_sorted_rev_descending [of "\<lambda>e. int (combined_score lsts e)"]
    by (simp add: borda_sort_eq)
  have stable: "filter (\<lambda>x. combined_score lsts x = v) (borda_sort lsts)
       = filter (\<lambda>x. combined_score lsts x = v) (first_seen (concat (map rev lsts)))"
    using py_sorted_rev_stable [of "\<lambda>e. int (combined_score lsts e)" "int v"]
    by (simp add: borda_sort_eq)
  have scores: "combined_score lsts e =
       (\<Sum>l\<leftarrow>lsts. \<Sum>i\<leftarrow>[0..<length l]. if l ! i = e then length l - 1 - i else 0)"
    by (simp add: combined_score_def positional_score_def)
  show ?thesis
    by (intro conjI select_stops_zou dict_get_borda_scores scores borda_sort_eq
        set_borda_sort distinct_borda_sort sorted stable)
qed

theorem borda_sort_positional_scores_witness:
  "combined_score [[''a'', ''b'', ''c''], [''b'', ''a'', ''c''], [''c'', ''b'', ''a'']] ''b'' = 4
   \<and> py_sorted_rev
        (\<lambda>e. int (combined_score [[''a'', ''b'', ''c''], [''b'', ''a'', ''c''], [''c'', ''b'', ''a'']] e))
        (first_seen (concat (map rev [[''a'', ''b'', ''c''], [''b'', ''a'', ''c''], [''c'', ''b'', ''a'']])))
      = [''b'', ''a'', ''c'']"
proof -
  let ?L = "[[''a'', ''b'', ''c''], [''b'', ''a'', ''c''], [''c'', ''b'', ''a'']]"
  have run: "borda_sort ?L = [''b'', ''a'', ''c'']"
    by (simp add: borda_sort_def borda_scores_def borda_step_def dict_keys_def dict_get_def
        py_sorted_rev_def)
  have score: "dict_get (borda_scores ?L) ''b'' = 4"
    by (simp add: borda_scores_def borda_step_def dict_keys_def dict_get_def)
  note spec = borda_sort_positional_scores [of 0 "[]" "[]" "[]" "[]" 0 ?L "''b''" 0]
  from spec have "dict_get (borda_scores ?L) ''b'' = combined_score ?L ''b''"
    by (elim conjE)
  moreover from spec have "borda_sort ?L =
      py_sorted_rev (\<lambda>e. int (combined_score ?L e)) (first_seen (concat (map rev ?L)))"
    by (elim conjE)
  ultimately show ?thesis
    using run score by (intro conjI) (simp_all only:)
qed

section \<open>The probability model\<close>

lemma sum_axis0_single: "sum_axis0 [row] = row"
  by (simp add: sum_axis0_def ncols_def map_nth)

lemma length_sum_axis0: "length (sum_axis0 m) = ncols m"
  by (simp add: sum_axis0_def)


lemma variance_one_row:
  "n \<noteq> 0 \<Longrightarrow>
   get_variance_probabilities (background_probabilities [row] [n])
     (get_probabilities [row] (get_length_array [n])) 1 = replicate (length row) 0"
  by (simp add: get_variance_probabilities_def background_probabilities_def
      get_probabilities_def get_length_array_def sum_axis0_single zip_map_map zip_same_conv_map
      map_replicate_const comp_def)

text \<open>
  Claim C3. With a single document the divisor of the per-document probabilities (the length
  of that document) and the divisor of the background probabilities (the sum of all lengths)
  are the same number, so the two matrices coincide cell by cell and the variance score of
  every column is 0; these zeros are the scores that the \<^verbatim>\<open>variance\<close> branch ranks. The
  document is taken to have a token, as scikit-learn finds no vocabulary otherwise.
\<close>

theorem variance_single_document:
  assumes "py_split t \<noteq> []"
  shows "get_variance_probabilities (background_probabilities [row] (get_raw_lengths [t]))
           (get_probabilities [row] (get_length_array (get_raw_lengths [t]))) (length [t])
         = replicate (length row) 0
    \<and> select_stops ''variance'' sz [row] tfidf vocab (get_raw_lengths [t]) (length [t])
         = Inr (StopList (py_slice_to sz (combine_vocabulary vocab (replicate (length row) (0::real)))))"
proof -
  have "int (length (py_split t)) \<noteq> 0" using assms by simp
  from variance_one_row [OF this, of row]
  show ?thesis by (simp add: get_raw_lengths_def select_stops_def)
qed

theorem variance_single_document_witness:
  "py_split ''aa bb aa'' \<noteq> []
   \<and> get_variance_probabilities (background_probabilities [[2, 1]] (get_raw_lengths [''aa bb aa'']))
        (get_probabilities [[2, 1]] (get_length_array (get_raw_lengths [''aa bb aa''])))
        (length [''aa bb aa'']) = [0, 0]"
proof -
  have h: "py_split ''aa bb aa'' \<noteq> []"
    by (simp add: py_split_def py_isspace_def)
  from variance_single_document [OF h, of "[2, 1]" 0 "[]" "[]"] h
  show ?thesis by (simp add: numeral_2_eq_2)
qed





subsection \<open>Float64 rounding\<close>




















section \<open>The parts of \<^verbatim>\<open>build_stoplist\<close>\<close>

lemma set_combine_vocabulary: "set (combine_vocabulary vocab meas) \<subseteq> set vocab"
  by (auto simp: combine_vocabulary_def Let_def set_py_sorted_rev dest: set_zip_leftD)

lemma set_extend_new: "set (extend_new xs inc) = set xs \<union> set inc"
  unfolding extend_new_def by (induction inc arbitrary: xs) auto

lemma length_extend_new: "length (extend_new xs inc) \<le> length xs + length inc"
  unfolding extend_new_def
proof (induction inc arbitrary: xs)
  case Nil
  then show ?case by simp
next
  case (Cons a inc)
  show ?case using Cons.IH [of "xs @ [a]"] Cons.IH [of xs] by simp
qed

lemma extend_new_Nil: "extend_new xs [] = xs"
  by (simp add: extend_new_def)

lemma in_slice_combine:
  "x \<in> set (py_slice_to sz (combine_vocabulary vocab meas)) \<Longrightarrow> x \<in> set vocab"
  using set_py_slice_to set_combine_vocabulary by fast

lemma in_slice_borda:
  assumes "x \<in> set (py_slice_to sz (borda_sort
      [combine_vocabulary vocab a, combine_vocabulary vocab b, combine_vocabulary vocab c]))"
  shows "x \<in> set vocab"
proof -
  have "set (borda_sort
      [combine_vocabulary vocab a, combine_vocabulary vocab b, combine_vocabulary vocab c])
      \<subseteq> set vocab"
    using set_combine_vocabulary [of vocab a] set_combine_vocabulary [of vocab b]
      set_combine_vocabulary [of vocab c]
    by (simp add: set_borda_sort)
  then show ?thesis using assms set_py_slice_to by fast
qed

lemma card_slice: "0 \<le> sz \<Longrightarrow> card (set (py_slice_to sz xs)) \<le> nat sz"
  using length_py_slice_to [of sz xs] card_length [of "py_slice_to sz xs"] by linarith

lemma select_stops_terms:
  assumes "select_stops basis sz dtm tfidf vocab raw_lengths N = Inr st"
  shows "stops_terms st \<subseteq> set vocab" and "finite (stops_terms st)"
    and "0 \<le> sz \<Longrightarrow> stops_len st \<le> nat sz"
proof -
  show "stops_terms st \<subseteq> set vocab"
    using assms
    by (auto simp: select_stops_def Let_def split: if_splits
        dest: in_slice_combine in_slice_borda)
  show "finite (stops_terms st)"
    using assms by (auto simp: select_stops_def Let_def split: if_splits)
  show "0 \<le> sz \<Longrightarrow> stops_len st \<le> nat sz"
    using assms
    by (auto simp: select_stops_def Let_def length_py_slice_to card_slice split: if_splits)
qed

lemma iterate_ok:
  assumes "set_iter_ok self" "finite (stops_terms st)"
  shows "set (iterate self st) = stops_terms st" and "length (iterate self st) = stops_len st"
proof -
  show "set (iterate self st) = stops_terms st"
    using assms by (cases st) (auto simp: set_iter_ok_def)
  show "length (iterate self st) = stops_len st"
  proof (cases st)
    case (StopList xs)
    then show ?thesis by simp
  next
    case (StopSet S)
    with assms have "set (set_iter self S) = S" "distinct (set_iter self S)"
      by (auto simp: set_iter_ok_def)
    then show ?thesis using StopSet distinct_card by fastforce
  qed
qed

lemma apply_include_Inr:
  "apply_include st inc = Inr r \<Longrightarrow>
     \<exists>xs. st = StopList xs \<and> r = StopList (extend_new xs inc)"
  by (cases st) auto

lemma assemble_terms:
  assumes ok: "set_iter_ok self" and fin: "finite (stops_terms st)"
    and run: "assemble self sort_words inc exc st = Inr r"
  shows "stops_terms r \<subseteq> stops_terms st \<union> set inc"
    and "stops_len r \<le> stops_len st + length inc"
proof -
  define st1 where "st1 = (if exc \<noteq> []
      then StopList (filter (\<lambda>item. item \<notin> set exc) (iterate self st)) else st)"
  have t1: "stops_terms st1 \<subseteq> stops_terms st"
    using iterate_ok(1) [OF ok fin] by (auto simp: st1_def)
  have l1: "stops_len st1 \<le> stops_len st"
    using iterate_ok(2) [OF ok fin] length_filter_le [of _ "iterate self st"]
    by (auto simp: st1_def)
  have fin1: "finite (stops_terms st1)"
    using t1 fin finite_subset by blast
  obtain st2 where inc2: "(if inc \<noteq> [] then apply_include st1 inc else Inr st1) = Inr st2"
    and fin2: "r = (if sort_words then StopList (sort (iterate self st2)) else st2)"
    using run by (auto simp: assemble_def Let_def st1_def [symmetric] split: sum.splits if_splits)
  have t2: "stops_terms st2 \<subseteq> stops_terms st1 \<union> set inc"
    using inc2 by (auto split: if_splits dest!: apply_include_Inr simp: set_extend_new)
  have l2: "stops_len st2 \<le> stops_len st1 + length inc"
    using inc2 length_extend_new
    by (auto split: if_splits dest!: apply_include_Inr)
  have fin2': "finite (stops_terms st2)"
    using t2 fin1 by (meson finite_UnI finite_set finite_subset)
  have t3: "stops_terms r = stops_terms st2"
    using iterate_ok(1) [OF ok fin2'] by (simp add: fin2)
  have l3: "stops_len r = stops_len st2"
    using iterate_ok(2) [OF ok fin2'] by (simp add: fin2)
  show "stops_terms r \<subseteq> stops_terms st \<union> set inc"
    using t1 t2 t3 by blast
  show "stops_len r \<le> stops_len st + length inc"
    using l1 l2 l3 by linarith
qed

lemma assemble_excluded:
  assumes run: "assemble self sort_words inc exc st = Inr r"
    and t: "t \<in> stops_terms r" and e: "t \<in> set exc"
  shows "t \<in> set inc"
proof -
  have ne: "exc \<noteq> []" using e by auto
  define xs where "xs = filter (\<lambda>item. item \<notin> set exc) (iterate self st)"
  obtain st2 where inc2: "(if inc \<noteq> [] then apply_include (StopList xs) inc else Inr (StopList xs)) = Inr st2"
    and fin2: "r = (if sort_words then StopList (sort (iterate self st2)) else st2)"
    using run ne by (auto simp: assemble_def Let_def xs_def split: sum.splits if_splits)
  have "st2 = StopList (if inc \<noteq> [] then extend_new xs inc else xs)"
    using inc2 by (auto split: if_splits)
  then have "stops_terms r \<subseteq> set xs \<union> set inc"
    by (auto simp: fin2 set_extend_new split: if_splits)
  with t e show ?thesis by (auto simp: xs_def)
qed

lemma build_stoplist_Inr:
  assumes "build_stoplist self texts basis sz sort_words inc_counts lower remove_punctuation
       remove_numbers inc exc = Inr r"
  obtains lang dtm vocab tfidf vocab' st where
    "language self = Some lang"
    "vectorizer self (preprocess self lower remove_punctuation remove_numbers texts) = Inr (dtm, vocab)"
    "tfidf_vectorizer self (preprocess self lower remove_punctuation remove_numbers texts)
       = Inr (tfidf, vocab')"
    "select_stops basis sz dtm tfidf vocab
       (get_raw_lengths (preprocess self lower remove_punctuation remove_numbers texts))
       (length (preprocess self lower remove_punctuation remove_numbers texts)) = Inr st"
    "assemble self sort_words inc exc st = Inr r"
  using assms
  by (auto simp: build_stoplist_def Let_def split: option.splits sum.splits prod.splits)

lemmas run_defs = build_stoplist_def stub_stoplist_def failing_stoplist_def preprocess_def
  select_stops_def assemble_def combine_vocabulary_def py_sorted_rev_def py_slice_to_def
  sum_axis0_def ncols_def extend_new_def get_raw_lengths_def

lemma set_iter_ok_stub: "set_iter_ok (stub_stoplist dtm tfidf vocab)"
  by (simp add: set_iter_ok_def stub_stoplist_def)

text \<open>
  Claim C2, in the form that holds of the code. Every term of a result comes from the
  vocabulary of the count vectorizer or from \<^verbatim>\<open>include\<close>, and for a size that is not
  negative a result has at most \<^verbatim>\<open>size\<close> terms more than \<^verbatim>\<open>include\<close> has entries. With
  an empty \<^verbatim>\<open>include\<close> this is the claim: at most \<^verbatim>\<open>size\<close> terms, all of the vocabulary.
  Terms of \<^verbatim>\<open>include\<close> are appended after the slice, whatever the basis.
\<close>

theorem build_stoplist_size_and_vocabulary:
  assumes ok: "set_iter_ok self"
    and run: "build_stoplist self texts basis sz sort_words inc_counts lower remove_punctuation
       remove_numbers inc exc = Inr r"
    and voc: "vectorizer self (preprocess self lower remove_punctuation remove_numbers texts)
       = Inr (dtm, vocab)"
  shows "stops_terms r \<subseteq> set vocab \<union> set inc
    \<and> (0 \<le> sz \<longrightarrow> stops_len r \<le> nat sz + length inc)
    \<and> (inc = [] \<longrightarrow> stops_terms r \<subseteq> set vocab \<and> (0 \<le> sz \<longrightarrow> stops_len r \<le> nat sz))"
proof -
  from run obtain lang dtm' vocab1 tfidf vocab' st where
    v: "vectorizer self (preprocess self lower remove_punctuation remove_numbers texts)
       = Inr (dtm', vocab1)"
    and sel: "select_stops basis sz dtm' tfidf vocab1
       (get_raw_lengths (preprocess self lower remove_punctuation remove_numbers texts))
       (length (preprocess self lower remove_punctuation remove_numbers texts)) = Inr st"
    and asm: "assemble self sort_words inc exc st = Inr r"
    by (rule build_stoplist_Inr)
  from v voc have eq: "vocab1 = vocab" by simp
  note s = select_stops_terms [OF sel]
  note a = assemble_terms [OF ok s(2) asm]
  have terms: "stops_terms r \<subseteq> set vocab \<union> set inc"
    using a(1) s(1) eq by blast
  have len: "0 \<le> sz \<Longrightarrow> stops_len r \<le> nat sz + length inc"
    using a(2) s(3) by linarith
  show ?thesis using terms len by auto
qed

theorem build_stoplist_size_and_vocabulary_witness:
  "set_iter_ok (stub_stoplist [[3, 1, 2]] [[3 / sqrt 14, 1 / sqrt 14, 2 / sqrt 14]]
      [''aa'', ''bb'', ''cc''])
   \<and> build_stoplist
        (stub_stoplist [[3, 1, 2]] [[3 / sqrt 14, 1 / sqrt 14, 2 / sqrt 14]] [''aa'', ''bb'', ''cc''])
        [''aa aa aa bb cc cc''] ''frequency'' 2 False False False False False [] []
      = Inr (StopList [''aa'', ''cc''])
   \<and> stops_terms (StopList [''aa'', ''cc'']) \<subseteq> set [''aa'', ''bb'', ''cc'']
   \<and> stops_len (StopList [''aa'', ''cc'']) \<le> nat 2"
proof -
  let ?obj = "stub_stoplist [[3, 1, 2]] [[3 / sqrt 14, 1 / sqrt 14, 2 / sqrt 14]]
      [''aa'', ''bb'', ''cc'']"
  have ok: "set_iter_ok ?obj" by (rule set_iter_ok_stub)
  have run: "build_stoplist ?obj [''aa aa aa bb cc cc''] ''frequency'' 2 False False False False
      False [] [] = Inr (StopList [''aa'', ''cc''])"
    by (simp add: run_defs)
  have voc: "vectorizer ?obj (preprocess ?obj False False False [''aa aa aa bb cc cc''])
      = Inr ([[3, 1, 2]], [''aa'', ''bb'', ''cc''])"
    by (simp add: stub_stoplist_def)
  from build_stoplist_size_and_vocabulary [OF ok run voc]
  have "stops_terms (StopList [''aa'', ''cc'']) \<subseteq> set [''aa'', ''bb'', ''cc'']"
    and "stops_len (StopList [''aa'', ''cc'']) \<le> nat 2"
    by simp_all
  with ok run show ?thesis by (intro conjI)
qed

text \<open>
  With two included words that the corpus does not contain, a result for size 1 has three
  terms, two of them outside the vocabulary.
\<close>

theorem build_stoplist_size_and_vocabulary_counterexample:
  "build_stoplist
      (stub_stoplist [[3, 1, 2]] [[3 / sqrt 14, 1 / sqrt 14, 2 / sqrt 14]] [''aa'', ''bb'', ''cc''])
      [''aa aa aa bb cc cc''] ''frequency'' 1 False False False False False [''xx'', ''yy''] []
    = Inr (StopList [''aa'', ''xx'', ''yy''])
   \<and> vectorizer
        (stub_stoplist [[3, 1, 2]] [[3 / sqrt 14, 1 / sqrt 14, 2 / sqrt 14]] [''aa'', ''bb'', ''cc''])
        (preprocess
          (stub_stoplist [[3, 1, 2]] [[3 / sqrt 14, 1 / sqrt 14, 2 / sqrt 14]] [''aa'', ''bb'', ''cc''])
          False False False [''aa aa aa bb cc cc''])
      = Inr ([[3, 1, 2]], [''aa'', ''bb'', ''cc''])
   \<and> nat 1 < stops_len (StopList [''aa'', ''xx'', ''yy''])
   \<and> ''xx'' \<in> stops_terms (StopList [''aa'', ''xx'', ''yy''])
   \<and> ''xx'' \<notin> set [''aa'', ''bb'', ''cc'']"
  by (simp add: run_defs)

text \<open>
  Claim C8, in the form that holds of the code. Exclusion is applied before inclusion, so a
  term of \<^verbatim>\<open>exclude\<close> is in a result only if it is in \<^verbatim>\<open>include\<close> as well; when the two
  lists share no term, no excluded term is in any result, for every basis.
\<close>

theorem build_stoplist_excluded_terms:
  assumes run: "build_stoplist self texts basis sz sort_words inc_counts lower remove_punctuation
       remove_numbers inc exc = Inr r"
  shows "(\<forall>t\<in>stops_terms r. t \<in> set exc \<longrightarrow> t \<in> set inc)
    \<and> (set inc \<inter> set exc = {} \<longrightarrow> stops_terms r \<inter> set exc = {})"
proof -
  from run obtain st where asm: "assemble self sort_words inc exc st = Inr r"
    by (rule build_stoplist_Inr)
  have "\<forall>t\<in>stops_terms r. t \<in> set exc \<longrightarrow> t \<in> set inc"
    using assemble_excluded [OF asm] by blast
  then show ?thesis by blast
qed

theorem build_stoplist_excluded_terms_witness:
  "build_stoplist
      (stub_stoplist [[3, 1, 2]] [[3 / sqrt 14, 1 / sqrt 14, 2 / sqrt 14]] [''aa'', ''bb'', ''cc''])
      [''aa aa aa bb cc cc''] ''frequency'' 2 False False False False False [''bb''] [''aa'']
    = Inr (StopList [''cc'', ''bb''])
   \<and> stops_terms (StopList [''cc'', ''bb'']) \<inter> set [''aa''] = {}"
proof -
  let ?obj = "stub_stoplist [[3, 1, 2]] [[3 / sqrt 14, 1 / sqrt 14, 2 / sqrt 14]]
      [''aa'', ''bb'', ''cc'']"
  have run: "build_stoplist ?obj [''aa aa aa bb cc cc''] ''frequency'' 2 False False False False
      False [''bb''] [''aa''] = Inr (StopList [''cc'', ''bb''])"
    by (simp add: run_defs)
  have dis: "set [''bb''] \<inter> set [''aa''] = {}" by simp
  from build_stoplist_excluded_terms [OF run] dis
  have "stops_terms (StopList [''cc'', ''bb'']) \<inter> set [''aa''] = {}" by blast
  with run show ?thesis by (intro conjI)
qed

text \<open>A term that is both excluded and included is in the result.\<close>

theorem build_stoplist_excluded_terms_counterexample:
  "build_stoplist
      (stub_stoplist [[3, 1, 2]] [[3 / sqrt 14, 1 / sqrt 14, 2 / sqrt 14]] [''aa'', ''bb'', ''cc''])
      [''aa aa aa bb cc cc''] ''frequency'' 1 True False True True True [''aa''] [''aa'']
    = Inr (StopList [''aa''])
   \<and> ''aa'' \<in> set [''aa'']
   \<and> ''aa'' \<in> stops_terms (StopList [''aa''])"
  by (simp add: run_defs)

subsection \<open>Failure\<close>

lemma select_stops_unsupported:
  "basis \<notin> set supported_bases \<Longrightarrow>
   select_stops basis sz dtm tfidf vocab raw_lengths N = Inl (unsupported_basis basis)"
  by (simp add: select_stops_def supported_bases_def Let_def)

lemma select_stops_supported:
  "basis \<in> set supported_bases \<Longrightarrow>
   \<exists>st. select_stops basis sz dtm tfidf vocab raw_lengths N = Inr st
     \<and> (is_StopList st \<longleftrightarrow> basis \<noteq> ''entropy'')"
  by (auto simp: select_stops_def supported_bases_def Let_def)

lemma select_stops_isl:
  "isl (select_stops basis sz dtm tfidf vocab raw_lengths N) \<longleftrightarrow> basis \<notin> set supported_bases"
  using select_stops_unsupported [of basis sz dtm tfidf vocab raw_lengths N]
    select_stops_supported [of basis sz dtm tfidf vocab raw_lengths N]
  by (cases "basis \<in> set supported_bases") auto

lemma assemble_isl:
  "isl (assemble self sort_words inc exc st) \<longleftrightarrow> (\<not> is_StopList st \<and> inc \<noteq> [] \<and> exc = [])"
  by (cases st) (auto simp: assemble_def Let_def)


text \<open>
  Claim C5, in the form that holds of the code. A basis outside the supported names ends in
  a \<^verbatim>\<open>ValueError\<close> whose message quotes the basis, but only at the end of the chain of
  branches: the language attribute is read and both vectorizers have run before, and an
  error of one of these comes first.
\<close>

theorem build_stoplist_unsupported_basis:
  assumes "basis \<notin> set supported_bases"
  shows "build_stoplist self texts basis sz sort_words inc_counts lower remove_punctuation
       remove_numbers inc exc =
     (case language self of
        None \<Rightarrow> Inl (AttributeError ''language'')
      | Some lang \<Rightarrow>
          (case vectorizer self (preprocess self lower remove_punctuation remove_numbers texts) of
             Inl e \<Rightarrow> Inl e
           | Inr counted \<Rightarrow>
               (case tfidf_vectorizer self
                       (preprocess self lower remove_punctuation remove_numbers texts) of
                  Inl e \<Rightarrow> Inl e
                | Inr weighted \<Rightarrow>
                    Inl (ValueError (''Basis '' @ [CHR 0x27] @ basis @ [CHR 0x27]
                           @ '' not supported.'')))))"
  using assms
  by (simp add: build_stoplist_def Let_def select_stops_unsupported unsupported_basis_def
      split: option.splits sum.splits prod.splits)

theorem build_stoplist_unsupported_basis_witness:
  "''foo'' \<notin> set supported_bases
   \<and> build_stoplist (stub_stoplist [[1]] [[1]] [''aa'']) [''aa''] ''foo'' 100 True False True True
        True [] []
      = Inl (ValueError (''Basis '' @ [CHR 0x27] @ ''foo'' @ [CHR 0x27] @ '' not supported.''))"
proof -
  have h: "''foo'' \<notin> set supported_bases" by (simp add: supported_bases_def)
  from build_stoplist_unsupported_basis [OF h, of "stub_stoplist [[1]] [[1]] [''aa'']"
      "[''aa'']" 100 True False True True True "[]" "[]"] h
  show ?thesis by (simp add: stub_stoplist_def)
qed

text \<open>
  On an empty corpus the count vectorizer raises, and with an unsupported basis the caller
  gets that error, not the one about the basis.
\<close>

theorem build_stoplist_unsupported_basis_counterexample:
  "''foo'' \<notin> set supported_bases
   \<and> build_stoplist failing_stoplist [] ''foo'' 100 True False True True True [] []
      = Inl empty_vocabulary
   \<and> empty_vocabulary \<noteq> unsupported_basis ''foo''"
  by (simp add: run_defs supported_bases_def empty_vocabulary_def unsupported_basis_def)

subsection \<open>Options without effect, and the kind of the result\<close>

lemma assemble_StopList:
  "\<exists>ys. assemble self sort_words inc exc (StopList xs) = Inr (StopList ys)"
  by (simp add: assemble_def Let_def)

text \<open>
  Claim C6, in the form that holds of the code. The body of \<^verbatim>\<open>build_stoplist\<close> never reads
  \<^verbatim>\<open>inc_counts\<close>. For the basis \<^verbatim>\<open>zou\<close>, whenever the language attribute is set and both
  vectorizers succeed, the call with \<^verbatim>\<open>inc_counts=True\<close> returns a list, the same list as
  with \<^verbatim>\<open>inc_counts=False\<close>; no error is raised for the combination.
\<close>

theorem build_stoplist_zou_inc_counts:
  assumes "language self = Some lang"
    and "vectorizer self (preprocess self lower remove_punctuation remove_numbers texts)
       = Inr (dtm, vocab)"
    and "tfidf_vectorizer self (preprocess self lower remove_punctuation remove_numbers texts)
       = Inr (tfidf, vocab')"
  shows "\<exists>xs. build_stoplist self texts ''zou'' sz sort_words True lower remove_punctuation
                remove_numbers inc exc = Inr (StopList xs)
            \<and> build_stoplist self texts ''zou'' sz sort_words False lower remove_punctuation
                remove_numbers inc exc = Inr (StopList xs)"
proof -
  obtain zs where sel: "select_stops ''zou'' sz dtm tfidf vocab
       (get_raw_lengths (preprocess self lower remove_punctuation remove_numbers texts))
       (length (preprocess self lower remove_punctuation remove_numbers texts))
     = Inr (StopList zs)"
    by (simp add: select_stops_zou Let_def)
  obtain ys where "assemble self sort_words inc exc (StopList zs) = Inr (StopList ys)"
    using assemble_StopList by blast
  with assms sel show ?thesis
    by (simp add: build_stoplist_def Let_def)
qed

theorem build_stoplist_zou_inc_counts_witness:
  "build_stoplist (stub_stoplist [[1]] [[1]] [''aa'']) [''aa''] ''zou'' 100 True True True True True
      [] [] = Inr (StopList [''aa''])"
proof -
  let ?obj = "stub_stoplist [[1]] [[1]] [''aa'']"
  have l: "language ?obj = Some ''latin''" by (simp add: stub_stoplist_def)
  have v: "vectorizer ?obj (preprocess ?obj True True True [''aa'']) = Inr ([[1]], [''aa''])"
    by (simp add: stub_stoplist_def)
  have t: "tfidf_vectorizer ?obj (preprocess ?obj True True True [''aa'']) = Inr ([[1]], [''aa''])"
    by (simp add: stub_stoplist_def)
  from build_stoplist_zou_inc_counts [OF l v t, of 100 True "[]" "[]"]
  obtain xs where
    a: "build_stoplist ?obj [''aa''] ''zou'' 100 True True True True True [] [] = Inr (StopList xs)"
    and b: "build_stoplist ?obj [''aa''] ''zou'' 100 True False True True True [] [] = Inr (StopList xs)"
    by blast
  have "build_stoplist ?obj [''aa''] ''zou'' 100 True False True True True [] []
      = Inr (StopList [''aa''])"
    by (simp add: run_defs borda_sort_def borda_scores_def borda_step_def dict_keys_def
        dict_get_def get_mean_probabilities_def get_variance_probabilities_def get_entropies_def
        get_probabilities_def background_probabilities_def get_length_array_def)
  with a b show ?thesis by simp
qed

text \<open>A call with the basis \<^verbatim>\<open>zou\<close> and \<^verbatim>\<open>inc_counts=True\<close> that returns a list.\<close>

theorem build_stoplist_zou_inc_counts_counterexample:
  "build_stoplist (stub_stoplist [[1]] [[1]] [''aa'']) [''aa''] ''zou'' 100 True True True True True
      [] [] = Inr (StopList [''aa''])
   \<and> \<not> isl (build_stoplist (stub_stoplist [[1]] [[1]] [''aa'']) [''aa''] ''zou'' 100 True True True
        True True [] [])"
  by (simp add: run_defs borda_sort_def borda_scores_def borda_step_def dict_keys_def
      dict_get_def get_mean_probabilities_def get_variance_probabilities_def get_entropies_def
      get_probabilities_def background_probabilities_def get_length_array_def)

text \<open>
  Claim C7, in the form that holds of the code. \<^verbatim>\<open>build_stoplist\<close> validates nothing
  itself. It fails exactly when the language attribute was never set, when one of the
  vectorizers raises (scikit-learn's does on a corpus without tokens), when the basis is
  not supported, or when the basis \<^verbatim>\<open>entropy\<close> meets a non-empty \<^verbatim>\<open>include\<close> and an empty
  \<^verbatim>\<open>exclude\<close> (a set has no \<^verbatim>\<open>extend\<close>). The lengths of the documents play no part, and
  \<^verbatim>\<open>get_probabilities\<close> is a plain division that raises nothing.
\<close>

theorem build_stoplist_failures:
  "isl (build_stoplist self texts basis sz sort_words inc_counts lower remove_punctuation
          remove_numbers inc exc) \<longleftrightarrow>
     language self = None
     \<or> isl (vectorizer self (preprocess self lower remove_punctuation remove_numbers texts))
     \<or> isl (tfidf_vectorizer self (preprocess self lower remove_punctuation remove_numbers texts))
     \<or> basis \<notin> set supported_bases
     \<or> (basis = ''entropy'' \<and> inc \<noteq> [] \<and> exc = [])"
proof (cases "basis \<in> set supported_bases")
  case False
  then show ?thesis
    by (auto simp: build_stoplist_def Let_def select_stops_unsupported
        split: option.splits sum.splits prod.splits)
next
  case True
  have sel: "\<exists>st. select_stops basis sz dtm tfidf vocab raw_lengths N = Inr st
     \<and> (is_StopList st \<longleftrightarrow> basis \<noteq> ''entropy'')" for dtm tfidf vocab raw_lengths N
    using True by (rule select_stops_supported)
  show ?thesis
  proof (cases "language self")
    case None
    then show ?thesis by (simp add: build_stoplist_def)
  next
    case (Some lang)
    show ?thesis
    proof (cases "vectorizer self (preprocess self lower remove_punctuation remove_numbers texts)")
      case (Inl e)
      with Some show ?thesis by (simp add: build_stoplist_def Let_def)
    next
      case (Inr counted)
      obtain dtm vocab where c: "counted = (dtm, vocab)" by (cases counted)
      show ?thesis
      proof (cases "tfidf_vectorizer self
          (preprocess self lower remove_punctuation remove_numbers texts)")
        case (Inl e)
        with Some Inr c show ?thesis by (simp add: build_stoplist_def Let_def)
      next
        case w: (Inr weighted)
        obtain tfidf vocab' where d: "weighted = (tfidf, vocab')" by (cases weighted)
        obtain st where st: "select_stops basis sz dtm tfidf vocab
            (get_raw_lengths (preprocess self lower remove_punctuation remove_numbers texts))
            (length (preprocess self lower remove_punctuation remove_numbers texts)) = Inr st"
          and kind: "is_StopList st \<longleftrightarrow> basis \<noteq> ''entropy''"
          using sel by blast
        have "build_stoplist self texts basis sz sort_words inc_counts lower remove_punctuation
            remove_numbers inc exc = assemble self sort_words inc exc st"
          using Some Inr c w d st by (simp add: build_stoplist_def Let_def)
        then show ?thesis
          using Some Inr w True kind by (simp add: assemble_isl)
      qed
    qed
  qed
qed

theorem build_stoplist_failures_witness:
  "isl (build_stoplist failing_stoplist [] ''frequency'' 100 True False True True True [] [])
   \<and> isl (build_stoplist (stub_stoplist [[1]] [[1]] [''aa'']) [''aa''] ''entropy'' 100 False False
        True True True [''bb''] [])"
proof -
  have "isl (vectorizer failing_stoplist (preprocess failing_stoplist True True True []))"
    by (simp add: failing_stoplist_def)
  then have a: "isl (build_stoplist failing_stoplist [] ''frequency'' 100 True False True True
      True [] [])"
    using build_stoplist_failures [of failing_stoplist "[]" "''frequency''" 100 True False True
        True True "[]" "[]"]
    by blast
  have b: "isl (build_stoplist (stub_stoplist [[1]] [[1]] [''aa'']) [''aa''] ''entropy'' 100 False
      False True True True [''bb''] [])"
    using build_stoplist_failures [of "stub_stoplist [[1]] [[1]] [''aa'']" "[''aa'']"
        "''entropy''" 100 False False True True True "[''bb'']" "[]"]
    by simp
  from a b show ?thesis by (intro conjI)
qed

text \<open>
  A corpus whose second document has no token: the lengths are 2 and 0, and the call
  returns the frequency ranking.
\<close>

theorem build_stoplist_failures_counterexample:
  "get_raw_lengths
      (preprocess
        (stub_stoplist [[1, 1], [0, 0]] [[1 / sqrt 2, 1 / sqrt 2], [0, 0]] [''aa'', ''bb''])
        True True True [''aa bb'', '''']) = [2, 0]
   \<and> build_stoplist
        (stub_stoplist [[1, 1], [0, 0]] [[1 / sqrt 2, 1 / sqrt 2], [0, 0]] [''aa'', ''bb''])
        [''aa bb'', ''''] ''frequency'' 100 True False True True True [] []
      = Inr (StopList [''aa'', ''bb''])"
  by (simp add: run_defs py_split_def py_isspace_def translate_to_space_def punctuation_def
      digits_def ascii_lower_def)




subsection \<open>The order of the result\<close>

lemma score_of_zip:
  assumes "distinct vocab" "(t, v) \<in> set (zip vocab meas)"
  shows "score_of vocab meas t = v"
proof -
  have "distinct (map fst (zip vocab meas))"
    using assms(1) by (simp add: map_fst_zip_take)
  then have "map_of (zip vocab meas) t = Some v"
    using assms(2) by simp
  then show ?thesis by (simp add: score_of_def)
qed

lemma combine_vocabulary_descending:
  assumes "distinct vocab"
  shows "sorted_wrt (\<lambda>a b. score_of vocab meas a \<ge> score_of vocab meas b)
           (combine_vocabulary vocab meas)"
proof -
  let ?ps = "py_sorted_rev snd (zip vocab meas)"
  have "sorted_wrt (\<lambda>p q. snd p \<ge> snd q) ?ps"
    by (rule py_sorted_rev_descending)
  moreover have "score_of vocab meas (fst p) = snd p" if "p \<in> set ?ps" for p
    using that score_of_zip [OF assms, of "fst p" "snd p" meas]
    by (simp add: set_py_sorted_rev)
  ultimately have "sorted_wrt (\<lambda>p q. score_of vocab meas (fst p) \<ge> score_of vocab meas (fst q)) ?ps"
    by (rule_tac sorted_wrt_mono_rel [rotated]) auto
  then show ?thesis
    by (simp add: combine_vocabulary_def Let_def sorted_wrt_map)
qed

lemma sorted_wrt_py_slice_to: "sorted_wrt R xs \<Longrightarrow> sorted_wrt R (py_slice_to sz xs)"
  by (simp add: py_slice_to_def)

lemma ranked_slice:
  assumes "distinct vocab"
  shows "sorted_wrt (\<lambda>a b. score_of vocab meas a \<ge> score_of vocab meas b)
           (filter P (py_slice_to sz (combine_vocabulary vocab meas)))"
  by (intro sorted_wrt_filter sorted_wrt_py_slice_to combine_vocabulary_descending assms)

lemma assemble_unsorted_list:
  "assemble self False [] exc (StopList xs)
     = Inr (StopList (if exc \<noteq> [] then filter (\<lambda>item. item \<notin> set exc) xs else xs))"
  by (simp add: assemble_def Let_def)

lemma assemble_sorted:
  "assemble self True inc exc st = Inr r \<Longrightarrow> \<exists>xs. r = StopList xs \<and> sorted xs"
  by (auto simp: assemble_def Let_def split: sum.splits if_splits)

lemma ranked_result:
  assumes "distinct vocab"
  shows "\<exists>xs. assemble self False [] exc
            (StopList (py_slice_to sz (combine_vocabulary vocab meas))) = Inr (StopList xs)
          \<and> sorted_wrt (\<lambda>a b. score_of vocab meas a \<ge> score_of vocab meas b) xs"
proof (cases "exc = []")
  case True
  then show ?thesis
    using sorted_wrt_py_slice_to [OF combine_vocabulary_descending [OF assms]]
    by (simp add: assemble_unsorted_list)
next
  case False
  then show ?thesis
    using ranked_slice [OF assms] by (simp add: assemble_unsorted_list)
qed

text \<open>
  Claim C9, in the form that holds of the code. With \<^verbatim>\<open>sort_words=True\<close> every returned
  value is a list in ascending lexicographic order, for every basis and all options. With
  \<^verbatim>\<open>sort_words=False\<close> and an empty \<^verbatim>\<open>include\<close>, the bases \<^verbatim>\<open>frequency\<close>, \<^verbatim>\<open>tfidf\<close>,
  \<^verbatim>\<open>mean\<close> and \<^verbatim>\<open>variance\<close> return a list in descending order of the score of the basis
  (for \<^verbatim>\<open>mean\<close> and \<^verbatim>\<open>variance\<close>: on a corpus that is not empty and has no document
  without tokens, where the scores are numbers). The second conjunct says the same of any
  vector of scores that the ranking is given, so the order does not depend on how the
  scores were rounded. The vocabulary is taken to hold each term once, as a vectorizer's
  does. Included words are appended in the order of \<^verbatim>\<open>include\<close>; the basis \<^verbatim>\<open>entropy\<close>
  passes through a set and is not covered.
\<close>

theorem build_stoplist_order:
  assumes lang: "language self = Some lang"
    and voc: "vectorizer self (preprocess self lower remove_punctuation remove_numbers texts)
       = Inr (dtm, vocab)"
    and tf: "tfidf_vectorizer self (preprocess self lower remove_punctuation remove_numbers texts)
       = Inr (tfidf, vocab')"
    and d: "distinct vocab"
  shows "(\<forall>r. build_stoplist self texts basis sz True inc_counts lower remove_punctuation
               remove_numbers inc exc = Inr r \<longrightarrow> (\<exists>xs. r = StopList xs \<and> sorted xs))
    \<and> (\<forall>meas :: real list.
          \<exists>xs. assemble self False [] exc
                 (StopList (py_slice_to sz (combine_vocabulary vocab meas))) = Inr (StopList xs)
            \<and> sorted_wrt (\<lambda>a b. score_of vocab meas a \<ge> score_of vocab meas b) xs)
    \<and> (\<exists>xs. build_stoplist self texts ''frequency'' sz False inc_counts lower remove_punctuation
                 remove_numbers [] exc = Inr (StopList xs)
            \<and> sorted_wrt (\<lambda>a b. score_of vocab (sum_axis0 dtm) a \<ge> score_of vocab (sum_axis0 dtm) b) xs)
    \<and> (\<exists>xs. build_stoplist self texts ''tfidf'' sz False inc_counts lower remove_punctuation
                 remove_numbers [] exc = Inr (StopList xs)
            \<and> sorted_wrt (\<lambda>a b. score_of vocab (sum_axis0 tfidf) a
                                  \<ge> score_of vocab (sum_axis0 tfidf) b) xs)
    \<and> (texts \<noteq> []
          \<and> 0 \<notin> set (get_raw_lengths (preprocess self lower remove_punctuation remove_numbers texts))
        \<longrightarrow>
        (\<exists>xs. build_stoplist self texts ''mean'' sz False inc_counts lower remove_punctuation
                 remove_numbers [] exc = Inr (StopList xs)
            \<and> sorted_wrt
                 (\<lambda>a b. score_of vocab
                          (get_mean_probabilities
                            (get_probabilities dtm (get_length_array (get_raw_lengths
                              (preprocess self lower remove_punctuation remove_numbers texts))))
                            (length (preprocess self lower remove_punctuation remove_numbers texts))) a
                      \<ge> score_of vocab
                          (get_mean_probabilities
                            (get_probabilities dtm (get_length_array (get_raw_lengths
                              (preprocess self lower remove_punctuation remove_numbers texts))))
                            (length (preprocess self lower remove_punctuation remove_numbers texts))) b)
                 xs)
      \<and> (\<exists>xs. build_stoplist self texts ''variance'' sz False inc_counts lower remove_punctuation
                 remove_numbers [] exc = Inr (StopList xs)
            \<and> sorted_wrt
                 (\<lambda>a b. score_of vocab
                          (get_variance_probabilities
                            (background_probabilities dtm (get_raw_lengths
                              (preprocess self lower remove_punctuation remove_numbers texts)))
                            (get_probabilities dtm (get_length_array (get_raw_lengths
                              (preprocess self lower remove_punctuation remove_numbers texts))))
                            (length (preprocess self lower remove_punctuation remove_numbers texts))) a
                      \<ge> score_of vocab
                          (get_variance_probabilities
                            (background_probabilities dtm (get_raw_lengths
                              (preprocess self lower remove_punctuation remove_numbers texts)))
                            (get_probabilities dtm (get_length_array (get_raw_lengths
                              (preprocess self lower remove_punctuation remove_numbers texts))))
                            (length (preprocess self lower remove_punctuation remove_numbers texts))) b)
                 xs))"
proof (intro conjI allI impI)
  fix r
  assume "build_stoplist self texts basis sz True inc_counts lower remove_punctuation
      remove_numbers inc exc = Inr r"
  then obtain st where "assemble self True inc exc st = Inr r"
    by (rule build_stoplist_Inr)
  then show "\<exists>xs. r = StopList xs \<and> sorted xs" by (rule assemble_sorted)
next
  fix meas :: "real list"
  show "\<exists>xs. assemble self False [] exc
                 (StopList (py_slice_to sz (combine_vocabulary vocab meas))) = Inr (StopList xs)
            \<and> sorted_wrt (\<lambda>a b. score_of vocab meas a \<ge> score_of vocab meas b) xs"
    by (rule ranked_result [OF d])
next
  show "\<exists>xs. build_stoplist self texts ''frequency'' sz False inc_counts lower remove_punctuation
                 remove_numbers [] exc = Inr (StopList xs)
            \<and> sorted_wrt (\<lambda>a b. score_of vocab (sum_axis0 dtm) a \<ge> score_of vocab (sum_axis0 dtm) b) xs"
    using ranked_result [OF d, of self exc sz "sum_axis0 dtm"] lang voc tf
    by (simp add: build_stoplist_def select_stops_def Let_def)
next
  show "\<exists>xs. build_stoplist self texts ''tfidf'' sz False inc_counts lower remove_punctuation
                 remove_numbers [] exc = Inr (StopList xs)
            \<and> sorted_wrt (\<lambda>a b. score_of vocab (sum_axis0 tfidf) a
                                  \<ge> score_of vocab (sum_axis0 tfidf) b) xs"
    using ranked_result [OF d, of self exc sz "sum_axis0 tfidf"] lang voc tf
    by (simp add: build_stoplist_def select_stops_def Let_def)
next
  let ?T = "preprocess self lower remove_punctuation remove_numbers texts"
  let ?m = "get_mean_probabilities
      (get_probabilities dtm (get_length_array (get_raw_lengths ?T))) (length ?T)"
  show "\<exists>xs. build_stoplist self texts ''mean'' sz False inc_counts lower remove_punctuation
                 remove_numbers [] exc = Inr (StopList xs)
            \<and> sorted_wrt (\<lambda>a b. score_of vocab ?m a \<ge> score_of vocab ?m b) xs"
    using ranked_result [OF d, of self exc sz ?m] lang voc tf
    by (simp add: build_stoplist_def select_stops_def Let_def)
next
  let ?T = "preprocess self lower remove_punctuation remove_numbers texts"
  let ?m = "get_variance_probabilities (background_probabilities dtm (get_raw_lengths ?T))
      (get_probabilities dtm (get_length_array (get_raw_lengths ?T))) (length ?T)"
  show "\<exists>xs. build_stoplist self texts ''variance'' sz False inc_counts lower remove_punctuation
                 remove_numbers [] exc = Inr (StopList xs)
            \<and> sorted_wrt (\<lambda>a b. score_of vocab ?m a \<ge> score_of vocab ?m b) xs"
    using ranked_result [OF d, of self exc sz ?m] lang voc tf
    by (simp add: build_stoplist_def select_stops_def Let_def)
qed

theorem build_stoplist_order_witness:
  "(\<exists>xs. build_stoplist
          (stub_stoplist [[3, 1, 2]] [[3 / sqrt 14, 1 / sqrt 14, 2 / sqrt 14]] [''aa'', ''bb'', ''cc''])
          [''aa aa aa bb cc cc''] ''frequency'' 2 False False False False False [] []
        = Inr (StopList xs)
      \<and> sorted_wrt (\<lambda>a b. score_of [''aa'', ''bb'', ''cc''] (sum_axis0 [[3, 1, 2 :: int]]) a
                          \<ge> score_of [''aa'', ''bb'', ''cc''] (sum_axis0 [[3, 1, 2]]) b) xs)
   \<and> build_stoplist
        (stub_stoplist [[3, 1, 2]] [[3 / sqrt 14, 1 / sqrt 14, 2 / sqrt 14]] [''aa'', ''bb'', ''cc''])
        [''aa aa aa bb cc cc''] ''frequency'' 2 True False False False False [] []
      = Inr (StopList [''aa'', ''cc''])
   \<and> sorted [''aa'', ''cc'']"
proof -
  let ?obj = "stub_stoplist [[3, 1, 2]] [[3 / sqrt 14, 1 / sqrt 14, 2 / sqrt 14]]
      [''aa'', ''bb'', ''cc'']"
  have l: "language ?obj = Some ''latin''" by (simp add: stub_stoplist_def)
  have v: "vectorizer ?obj (preprocess ?obj False False False [''aa aa aa bb cc cc''])
      = Inr ([[3, 1, 2]], [''aa'', ''bb'', ''cc''])"
    by (simp add: stub_stoplist_def)
  have t: "tfidf_vectorizer ?obj (preprocess ?obj False False False [''aa aa aa bb cc cc''])
      = Inr ([[3 / sqrt 14, 1 / sqrt 14, 2 / sqrt 14]], [''aa'', ''bb'', ''cc''])"
    by (simp add: stub_stoplist_def)
  have d: "distinct [''aa'', ''bb'', ''cc'']" by simp
  have run: "build_stoplist ?obj [''aa aa aa bb cc cc''] ''frequency'' 2 True False False False
      False [] [] = Inr (StopList [''aa'', ''cc''])"
    by (simp add: run_defs)
  note inst = build_stoplist_order [OF l v t d, of "''frequency''" 2 False "[]" "[]"]
  from inst have a: "\<exists>xs. build_stoplist ?obj [''aa aa aa bb cc cc''] ''frequency'' 2 False False
        False False False [] [] = Inr (StopList xs)
      \<and> sorted_wrt (\<lambda>a b. score_of [''aa'', ''bb'', ''cc''] (sum_axis0 [[3, 1, 2 :: int]]) a
                          \<ge> score_of [''aa'', ''bb'', ''cc''] (sum_axis0 [[3, 1, 2]]) b) xs"
    by (elim conjE)
  from inst have "\<forall>r. build_stoplist ?obj [''aa aa aa bb cc cc''] ''frequency'' 2 True False
        False False False [] [] = Inr r \<longrightarrow> (\<exists>xs. r = StopList xs \<and> sorted xs)"
    by (elim conjE)
  with run have b: "sorted [''aa'', ''cc'']" by auto
  from a run b show ?thesis by (intro conjI)
qed

text \<open>
  Included words are appended after the ranked terms: with scores 3, 1 and 2 the result is
  not in descending order of the score.
\<close>

theorem build_stoplist_order_counterexample:
  "build_stoplist
      (stub_stoplist [[3, 1, 2]] [[3 / sqrt 14, 1 / sqrt 14, 2 / sqrt 14]] [''aa'', ''bb'', ''cc''])
      [''aa aa aa bb cc cc''] ''frequency'' 1 False False False False False [''bb'', ''cc''] []
    = Inr (StopList [''aa'', ''bb'', ''cc''])
   \<and> \<not> sorted_wrt (\<lambda>a b. score_of [''aa'', ''bb'', ''cc''] (sum_axis0 [[3, 1, 2 :: int]]) a
                        \<ge> score_of [''aa'', ''bb'', ''cc''] (sum_axis0 [[3, 1, 2]]) b)
          [''aa'', ''bb'', ''cc'']"
  by (simp add: run_defs score_of_def)

end
